theory Spec2Isabelle
  imports Main
begin

section \<open>The tabbed-panel controller (class Tabs of the tabs component)\<close>

text \<open>
  The component is event-driven JavaScript over the DOM. The embedding keeps the DOM
  elements in an explicit store: a trigger (an element of class \<open>tab-btn\<close>) and a panel
  (an element of class \<open>tab-content\<close>) are records of the attributes, classes and styles
  the class reads or writes, addressed by node references, and the container's document
  order is a list of references. The two \<open>NodeList\<close> snapshots the constructor takes
  (\<open>this.tabButtons\<close>, \<open>this.tabContents\<close>) are lists of references of their own.

  An \<open>async\<close> method runs synchronously up to its first \<open>await\<close> and is continued when
  the awaited promise settles. Each such method is therefore split at its suspension
  points: the function named like the method is the synchronous prefix, and the
  continuations take the outcome that the environment delivers (the response of
  \<open>fetch\<close>, the load or error of the images, the firing of a timer).

  Scope of the model. Selectors are resolved by equality: \<open>[data-tab="t"]\<close> is looked up
  among the triggers and \<open>#t\<close> among the panels of the container, which presumes that
  tab ids are CSS identifiers, that the elements carrying \<open>data-tab\<close> are the triggers
  and that the elements found by id are the panels. An id that is not an identifier (one
  that starts with a digit, or holds a quote) gives a selector that \<open>querySelector\<close>
  rejects with an exception or reads differently; such ids are outside the model. Event
  binding, the mobile menu, the resize handling and the height adjustment touch none of
  the modelled fields and are left out.
\<close>

subsection \<open>Elements, browser state and the instance\<close>

type_synonym node = nat

record button =
  data_tab :: "string option"
  textContent :: string
  b_active :: bool
  b_loading :: bool
  aria_selected :: "bool option"
  tabindex :: "string option"
  b_role :: "string option"
  aria_controls :: "string option"
  b_id :: "string option"

record panel =
  p_id :: string
  p_active :: bool
  data_load :: bool
  data_loaded :: bool
  data_load_url :: "string option"
  innerHTML :: string
  lazy_images :: nat
  opacity :: "string option"
  transform :: "string option"
  aria_hidden :: "bool option"
  p_role :: "string option"
  aria_labelledby :: "string option"

text \<open>
  \<open>lazy_images\<close> is the number of \<open>img[data-src]\<close> descendants of the panel.
  A rejected promise carries a \<open>failure\<close>; \<open>TypeError\<close> is the exception of calling a
  method that the receiver does not have.
\<close>

datatype failure = FetchFailed | ImageFailed

datatype js_error = TypeError

datatype console_entry = Warn string | Error failure

datatype dom_event =
    TabChangeContainer "string option" "node option" "node option"
  | TabChangeWindow "string option"

record world =
  btn :: "node \<Rightarrow> button"
  pnl :: "node \<Rightarrow> panel"
  dom_buttons :: "node list"
  dom_panels :: "node list"
  title_el :: "string option"
  tabContainers :: nat
  tabButtons :: "node list"
  tabContents :: "node list"
  activeTab :: "string option"
  transitioning :: bool
  location_hash :: string
  has_pushState :: bool
  history :: "string list"
  fetches :: "(node \<times> string) list"
  console :: "console_entry list"
  events :: "dom_event list"

text \<open>
  \<open>title_el\<close> is the text of the element \<open>#active-tab-title\<close> when the container has
  one; \<open>tabContainers\<close> is the length of \<open>this.tabContainers\<close>; \<open>history\<close> lists the
  URLs given to \<open>history.pushState\<close>; \<open>fetches\<close> lists the calls of \<open>fetch\<close>, each
  with the panel it was issued for.
\<close>

subsection \<open>Suspension points\<close>

datatype stage = AwaitFetch | AwaitImages nat | AwaitFadeOut | AwaitFadeIn

record locals =
  l_button :: node
  l_targetTab :: "string option"
  l_targetContent :: node
  l_currentButton :: "node option"
  l_currentContent :: "node option"

datatype task = Task stage locals

datatype completion = Resolved | Rejected failure | Suspended task

datatype outcome = FetchOk string nat | FetchFail | ImagesOk | ImagesFail | TimerFired

text \<open>
  \<open>FetchOk html n\<close>: the response text arrived; \<open>n\<close> is the number of
  \<open>img[data-src]\<close> elements that \<open>html\<close> contains.
\<close>

subsection \<open>Helpers\<close>

definition js_str :: "string option \<Rightarrow> string" where
  "js_str v = (case v of None \<Rightarrow> ''null'' | Some s \<Rightarrow> s)"

definition is_space :: "char \<Rightarrow> bool" where
  "is_space c = (c \<in> set [CHR '' '', CHR 0x09, CHR 0x0A, CHR 0x0B, CHR 0x0C, CHR 0x0D])"

definition trim :: "string \<Rightarrow> string" where
  "trim s = rev (dropWhile is_space (rev (dropWhile is_space s)))"

definition upd_btn :: "node \<Rightarrow> (button \<Rightarrow> button) \<Rightarrow> world \<Rightarrow> world" where
  "upd_btn r f w = w\<lparr>btn := (btn w)(r := f (btn w r))\<rparr>"

definition upd_pnl :: "node \<Rightarrow> (panel \<Rightarrow> panel) \<Rightarrow> world \<Rightarrow> world" where
  "upd_pnl c f w = w\<lparr>pnl := (pnl w)(c := f (pnl w c))\<rparr>"

definition upd_btn_opt :: "node option \<Rightarrow> (button \<Rightarrow> button) \<Rightarrow> world \<Rightarrow> world" where
  "upd_btn_opt r f w = (case r of None \<Rightarrow> w | Some b \<Rightarrow> upd_btn b f w)"

definition upd_pnl_opt :: "node option \<Rightarrow> (panel \<Rightarrow> panel) \<Rightarrow> world \<Rightarrow> world" where
  "upd_pnl_opt r f w = (case r of None \<Rightarrow> w | Some c \<Rightarrow> upd_pnl c f w)"

text \<open>\<open>$('[data-tab="t"]', container)\<close> and \<open>$('#t', container)\<close>: the first match in document order.\<close>

definition query_data_tab :: "world \<Rightarrow> string \<Rightarrow> node option" where
  "query_data_tab w t = find (\<lambda>r. data_tab (btn w r) = Some t) (dom_buttons w)"

definition query_id :: "world \<Rightarrow> string \<Rightarrow> node option" where
  "query_id w t = find (\<lambda>c. p_id (pnl w c) = t) (dom_panels w)"

text \<open>\<open>$('.tab-btn.active')\<close>, \<open>$('.tab-content.active')\<close> and \<open>$('.tab-btn[data-tab].active')\<close>.\<close>

definition query_active_button :: "world \<Rightarrow> node option" where
  "query_active_button w = find (\<lambda>r. b_active (btn w r)) (dom_buttons w)"

definition query_active_content :: "world \<Rightarrow> node option" where
  "query_active_content w = find (\<lambda>c. p_active (pnl w c)) (dom_panels w)"

definition query_active_from_data :: "world \<Rightarrow> node option" where
  "query_active_from_data w =
     find (\<lambda>r. data_tab (btn w r) \<noteq> None \<and> b_active (btn w r)) (dom_buttons w)"

subsection \<open>Accessibility attributes, title and notification\<close>

definition a11y_button :: "node \<Rightarrow> world \<Rightarrow> world" where
  "a11y_button r w =
     (let isActive = b_active (btn w r);
          tabId = data_tab (btn w r);
          content = query_id w (js_str tabId);
          w1 = upd_btn r (\<lambda>b. b\<lparr>aria_selected := Some isActive,
                                 tabindex := Some (if isActive then ''0'' else ''-1'')\<rparr>) w;
          w2 = upd_pnl_opt content (\<lambda>p. p\<lparr>aria_hidden := Some (\<not> isActive)\<rparr>) w1;
          w3 = upd_btn r (\<lambda>b. b\<lparr>b_role := Some ''tab'',
                                 aria_controls := Some (js_str tabId),
                                 b_id := Some (''tab-'' @ js_str tabId)\<rparr>) w2
      in upd_pnl_opt content (\<lambda>p. p\<lparr>p_role := Some ''tabpanel'',
                                       aria_labelledby := Some (''tab-'' @ js_str tabId)\<rparr>) w3)"

definition updateTabAccessibility :: "world \<Rightarrow> world" where
  "updateTabAccessibility w = fold a11y_button (tabButtons w) w"

definition updateTabTitleDisplay :: "node \<Rightarrow> world \<Rightarrow> world" where
  "updateTabTitleDisplay activeButton w =
     (case title_el w of
        None \<Rightarrow> w
      | Some _ \<Rightarrow> w\<lparr>title_el := Some (trim (textContent (btn w activeButton)))\<rparr>)"

definition updateActiveStates :: "node \<Rightarrow> node \<Rightarrow> world \<Rightarrow> world" where
  "updateActiveStates activeButton activeContent w =
     (let w1 = fold (\<lambda>r. upd_btn r (\<lambda>b. b\<lparr>b_active := False\<rparr>)) (tabButtons w) w;
          w2 = fold (\<lambda>c. upd_pnl c (\<lambda>p. p\<lparr>p_active := False, opacity := Some ''0'',
                                           transform := Some ''translateY(10px)''\<rparr>))
                    (tabContents w1) w1;
          w3 = upd_btn activeButton (\<lambda>b. b\<lparr>b_active := True\<rparr>) w2;
          w4 = upd_pnl activeContent (\<lambda>p. p\<lparr>p_active := True, opacity := Some ''1'',
                                              transform := Some ''translateY(0)''\<rparr>) w3;
          w5 = updateTabTitleDisplay activeButton w4
      in updateTabAccessibility w5)"

definition dispatchTabChangeEvent :: "string option \<Rightarrow> world \<Rightarrow> world" where
  "dispatchTabChangeEvent tabId w =
     w\<lparr>events := events w @
        [TabChangeContainer tabId (query_id w (js_str tabId)) (query_data_tab w (js_str tabId)),
         TabChangeWindow tabId]\<rparr>"

subsection \<open>preloadTabContent\<close>

text \<open>The markup written into the panel when the fetch fails (without the white space between its tags).\<close>

definition retry_markup :: string where
  "retry_markup = ''<div class=\"tab-error\"><p>Failed to load content. Please try again.</p><button class=\"btn btn--secondary\" onclick=\"this.closest('.tab-content').reload()\">Retry</button></div>''"

text \<open>
  The image loop of \<open>preloadTabContent\<close>: every \<open>img[data-src]\<close> gets its \<open>src\<close> and
  loses \<open>data-src\<close>; the result is the number of promises given to \<open>Promise.all\<close>.
\<close>

definition preload_images :: "node \<Rightarrow> world \<Rightarrow> stage \<times> world" where
  "preload_images c w =
     (AwaitImages (lazy_images (pnl w c)), upd_pnl c (\<lambda>p. p\<lparr>lazy_images := 0\<rparr>) w)"

definition truthy_url :: "string option \<Rightarrow> bool" where
  "truthy_url u = (case u of None \<Rightarrow> False | Some s \<Rightarrow> s \<noteq> [])"

definition preloadTabContent :: "node \<Rightarrow> world \<Rightarrow> stage \<times> world" where
  "preloadTabContent c w =
     (let shouldLoad = data_load (pnl w c) \<and> \<not> data_loaded (pnl w c);
          loadUrl = data_load_url (pnl w c)
      in if shouldLoad \<and> truthy_url loadUrl
         then (AwaitFetch, w\<lparr>fetches := fetches w @ [(c, js_str loadUrl)]\<rparr>)
         else preload_images c w)"

text \<open>The continuation of \<open>preloadTabContent\<close> once \<open>fetch\<close> (and \<open>response.text()\<close>) settled.\<close>

definition preloadTabContent_fetched :: "outcome \<Rightarrow> node \<Rightarrow> world \<Rightarrow> (failure + stage) \<times> world" where
  "preloadTabContent_fetched oc c w =
     (case oc of
        FetchOk html n \<Rightarrow>
          (let w1 = upd_pnl c (\<lambda>p. p\<lparr>innerHTML := html, lazy_images := n, data_loaded := True\<rparr>) w;
               (st, w2) = preload_images c w1
           in (Inr st, w2))
      | _ \<Rightarrow>
          (Inl FetchFailed, upd_pnl c (\<lambda>p. p\<lparr>innerHTML := retry_markup, lazy_images := 0\<rparr>) w))"

subsection \<open>performTabTransition\<close>

definition performTabTransition :: "locals \<Rightarrow> world \<Rightarrow> world" where
  "performTabTransition l w =
     upd_pnl_opt (l_currentContent l)
       (\<lambda>p. p\<lparr>opacity := Some ''0'', transform := Some ''translateY(10px)''\<rparr>) w"

text \<open>The callback of the 300 ms timer, and that of the 50 ms timer.\<close>

definition performTabTransition_swap :: "locals \<Rightarrow> world \<Rightarrow> world" where
  "performTabTransition_swap l w =
     (let w1 = upd_btn_opt (l_currentButton l) (\<lambda>b. b\<lparr>b_active := False\<rparr>) w;
          w2 = upd_pnl_opt (l_currentContent l) (\<lambda>p. p\<lparr>p_active := False\<rparr>) w1;
          w3 = upd_btn (l_button l) (\<lambda>b. b\<lparr>b_active := True\<rparr>) w2
      in upd_pnl (l_targetContent l) (\<lambda>p. p\<lparr>p_active := True\<rparr>) w3)"

definition performTabTransition_fadeIn :: "locals \<Rightarrow> world \<Rightarrow> world" where
  "performTabTransition_fadeIn l w =
     upd_pnl (l_targetContent l)
       (\<lambda>p. p\<lparr>opacity := Some ''1'', transform := Some ''translateY(0)''\<rparr>) w"

subsection \<open>switchToTab\<close>

definition pushState :: "string \<Rightarrow> world \<Rightarrow> world" where
  "pushState url w = w\<lparr>location_hash := url, history := history w @ [url]\<rparr>"

definition switchToTab :: "node \<Rightarrow> world \<Rightarrow> completion \<times> world" where
  "switchToTab button w =
     (if transitioning w \<or> b_active (btn w button) then (Resolved, w)
      else
        (let w1 = w\<lparr>transitioning := True\<rparr>;
             targetTab = data_tab (btn w1 button)
         in case query_id w1 (js_str targetTab) of
              None \<Rightarrow>
                (Resolved,
                 w1\<lparr>console := console w1 @ [Warn (''Tab content not found for: '' @ js_str targetTab)],
                    transitioning := False\<rparr>)
            | Some targetContent \<Rightarrow>
                (let currentButton = query_active_button w1;
                     currentContent = query_active_content w1;
                     w2 = (if has_pushState w1 then pushState (''#'' @ js_str targetTab) w1 else w1);
                     w3 = upd_btn button (\<lambda>b. b\<lparr>b_loading := True\<rparr>) w2;
                     (st, w4) = preloadTabContent targetContent w3
                 in (Suspended (Task st \<lparr>l_button = button, l_targetTab = targetTab,
                                          l_targetContent = targetContent,
                                          l_currentButton = currentButton,
                                          l_currentContent = currentContent\<rparr>), w4))))"

text \<open>The \<open>catch\<close> and \<open>finally\<close> blocks, and the rest of the \<open>try\<close> block after the transition.\<close>

definition switchToTab_catch :: "failure \<Rightarrow> locals \<Rightarrow> world \<Rightarrow> completion \<times> world" where
  "switchToTab_catch e l w =
     (let w1 = w\<lparr>console := console w @ [Error e]\<rparr>;
          w2 = upd_btn (l_button l) (\<lambda>b. b\<lparr>b_loading := False\<rparr>) w1
      in (Resolved, w2\<lparr>transitioning := False\<rparr>))"

definition switchToTab_finish :: "locals \<Rightarrow> world \<Rightarrow> completion \<times> world" where
  "switchToTab_finish l w =
     (let w1 = updateActiveStates (l_button l) (l_targetContent l) w;
          w2 = w1\<lparr>activeTab := l_targetTab l\<rparr>;
          w3 = dispatchTabChangeEvent (l_targetTab l) w2;
          w4 = upd_btn (l_button l) (\<lambda>b. b\<lparr>b_loading := False\<rparr>) w3
      in (Resolved, w4\<lparr>transitioning := False\<rparr>))"

text \<open>
  The continuation of a suspended \<open>switchToTab\<close>. An outcome that does not belong to
  the awaited promise leaves the task suspended; \<open>Promise.all\<close> of no promise cannot
  reject.
\<close>

definition settles_fetch :: "outcome \<Rightarrow> bool" where
  "settles_fetch oc = (case oc of FetchOk _ _ \<Rightarrow> True | FetchFail \<Rightarrow> True | _ \<Rightarrow> False)"

definition switchToTab_resume :: "outcome \<Rightarrow> task \<Rightarrow> world \<Rightarrow> completion \<times> world" where
  "switchToTab_resume oc t w =
     (case t of Task st l \<Rightarrow>
        (case st of
           AwaitFetch \<Rightarrow>
             (if settles_fetch oc
              then (case preloadTabContent_fetched oc (l_targetContent l) w of
                      (Inr st', w1) \<Rightarrow> (Suspended (Task st' l), w1)
                    | (Inl e, w1) \<Rightarrow> switchToTab_catch e l w1)
              else (Suspended t, w))
         | AwaitImages n \<Rightarrow>
             (if oc = ImagesOk then (Suspended (Task AwaitFadeOut l), performTabTransition l w)
              else if oc = ImagesFail \<and> 0 < n then switchToTab_catch ImageFailed l w
              else (Suspended t, w))
         | AwaitFadeOut \<Rightarrow>
             (if oc = TimerFired then (Suspended (Task AwaitFadeIn l), performTabTransition_swap l w)
              else (Suspended t, w))
         | AwaitFadeIn \<Rightarrow>
             (if oc = TimerFired then switchToTab_finish l (performTabTransition_fadeIn l w)
              else (Suspended t, w))))"

text \<open>One call of \<open>switchToTab\<close> followed through the outcomes of its awaits.\<close>

fun feed :: "outcome list \<Rightarrow> completion \<times> world \<Rightarrow> completion \<times> world" where
  "feed [] cw = cw"
| "feed (oc # ocs) (Suspended t, w) = feed ocs (switchToTab_resume oc t w)"
| "feed (oc # ocs) (r, w) = (r, w)"

subsection \<open>Startup\<close>

text \<open>
  \<open>location.hash\<close> is the empty string or starts with \<open>#\<close>; \<open>hash.slice(1)\<close> drops the
  first character. \<open>this.tabButtons[0]\<close> is \<open>undefined\<close> for an empty list.
\<close>

definition setInitialActiveTab :: "world \<Rightarrow> completion \<times> world" where
  "setInitialActiveTab w =
     (let hash = location_hash w;
          tabFromHash = (if hash \<noteq> [] then query_data_tab w (drop 1 hash) else None)
      in case tabFromHash of
           Some b \<Rightarrow> switchToTab b w
         | None \<Rightarrow>
             (case query_active_from_data w of
                Some b \<Rightarrow> switchToTab b w
              | None \<Rightarrow>
                  (case tabButtons w of
                     [] \<Rightarrow> (Resolved, w)
                   | firstTab # _ \<Rightarrow> switchToTab firstTab w)))"



subsection \<open>removeTab\<close>

text \<open>
  \<open>this.tabButtons\<close> is the \<open>NodeList\<close> that \<open>querySelectorAll\<close> returned. A \<open>NodeList\<close>
  has \<open>forEach\<close>, \<open>length\<close> and indexing, and no \<open>filter\<close>: the call
  \<open>this.tabButtons.filter(...)\<close> throws a \<open>TypeError\<close>.
\<close>

definition NodeList_filter :: "(node \<Rightarrow> bool) \<Rightarrow> node list \<Rightarrow> js_error + node list" where
  "NodeList_filter P ns = Inl TypeError"

definition element_remove :: "node \<Rightarrow> node list \<Rightarrow> node list" where
  "element_remove r ns = filter (\<lambda>x. x \<noteq> r) ns"

definition removeTab :: "string \<Rightarrow> world \<Rightarrow> (js_error \<times> world) + (completion \<times> world)" where
  "removeTab tabId w =
     (case (query_data_tab w tabId, query_id w tabId) of
        (Some button, Some content) \<Rightarrow>
          (let switched =
                 (if b_active (btn w button)
                  then (case NodeList_filter (\<lambda>b. b \<noteq> button) (tabButtons w) of
                          Inl e \<Rightarrow> Inl (e, w)
                        | Inr otherTabs \<Rightarrow>
                            (case otherTabs of
                               [] \<Rightarrow> Inr (Resolved, w)
                             | other # _ \<Rightarrow> Inr (switchToTab other w)))
                  else Inr (Resolved, w))
           in case switched of
                Inl e \<Rightarrow> Inl e
              | Inr (r, w1) \<Rightarrow>
                  (let w2 = w1\<lparr>dom_buttons := element_remove button (dom_buttons w1),
                                dom_panels := element_remove content (dom_panels w1)\<rparr>;
                       w3 = w2\<lparr>tabButtons := dom_buttons w2, tabContents := dom_panels w2\<rparr>
                   in Inr (r, updateTabAccessibility w3)))
      | _ \<Rightarrow> Inr (Resolved, w))"

subsection \<open>The event loop\<close>

text \<open>
  A configuration is the world and the suspended calls of \<open>switchToTab\<close>. Between two
  events the page is observable. \<open>Request b\<close> is a call \<open>switchToTab(b)\<close> (a click on
  the trigger, Enter or Space on it, \<open>switchToTabById\<close>); \<open>Settle k oc\<close> delivers the
  outcome \<open>oc\<close> to the \<open>k\<close>-th suspended call.
\<close>

datatype event = Request node | Settle nat outcome

type_synonym config = "world \<times> task list"

fun step :: "event \<Rightarrow> config \<Rightarrow> config" where
  "step (Request b) (w, ts) =
     (case switchToTab b w of
        (Suspended t, w1) \<Rightarrow> (w1, ts @ [t])
      | (_, w1) \<Rightarrow> (w1, ts))"
| "step (Settle k oc) (w, ts) =
     (if k < length ts
      then (case switchToTab_resume oc (ts ! k) w of
              (Suspended t, w1) \<Rightarrow> (w1, ts[k := t])
            | (_, w1) \<Rightarrow> (w1, take k ts @ drop (Suc k) ts))
      else (w, ts))"

definition run :: "event list \<Rightarrow> config \<Rightarrow> config" where
  "run evs c = fold step evs c"

subsection \<open>Example markup\<close>

text \<open>
  A page with the tabs \<open>A\<close>, \<open>B\<close>, \<open>C\<close>: \<open>B\<close> is marked active in the markup, the
  panel of \<open>C\<close> is loaded from \<open>c.html\<close>. The argument is \<open>location.hash\<close>.
\<close>

definition mk_button :: "string \<Rightarrow> bool \<Rightarrow> button" where
  "mk_button t a = \<lparr>data_tab = Some t, textContent = t, b_active = a, b_loading = False,
     aria_selected = None, tabindex = None, b_role = None, aria_controls = None, b_id = None\<rparr>"

definition mk_panel :: "string \<Rightarrow> bool \<Rightarrow> string option \<Rightarrow> panel" where
  "mk_panel t a url = \<lparr>p_id = t, p_active = a, data_load = (url \<noteq> None), data_loaded = False,
     data_load_url = url, innerHTML = [], lazy_images = 0, opacity = None, transform = None,
     aria_hidden = None, p_role = None, aria_labelledby = None\<rparr>"

definition page_abc :: "string \<Rightarrow> world" where
  "page_abc h = \<lparr>btn = (\<lambda>_. mk_button [] False)(0 := mk_button ''A'' False, 1 := mk_button ''B'' True, 2 := mk_button ''C'' False),
     pnl = (\<lambda>_. mk_panel [] False None)(0 := mk_panel ''A'' False None, 1 := mk_panel ''B'' True None, 2 := mk_panel ''C'' False (Some ''c.html'')),
     dom_buttons = [0, 1, 2], dom_panels = [0, 1, 2], title_el = None, tabContainers = 1,
     tabButtons = [0, 1, 2], tabContents = [0, 1, 2], activeTab = None, transitioning = False,
     location_hash = h, has_pushState = True, history = [], fetches = [], console = [], events = []\<rparr>"


text \<open>The page with three tabs once the content of \<open>C\<close> has been loaded.\<close>

definition page_loaded :: world where
  "page_loaded =
     upd_pnl 2 (\<lambda>p. p\<lparr>innerHTML := ''<p>c</p>'', data_loaded := True\<rparr>) (page_abc [])"

subsection \<open>Predicates of the properties\<close>


text \<open>
  \<open>quiet w w'\<close>: from \<open>w\<close> to \<open>w'\<close> the document, the snapshots, the ids, the
  \<open>active\<close> classes, \<open>activeTab\<close> and the notifications are the same.
\<close>

definition quiet :: "world \<Rightarrow> world \<Rightarrow> bool" where
  "quiet w w' =
     (dom_buttons w' = dom_buttons w \<and> dom_panels w' = dom_panels w
    \<and> tabButtons w' = tabButtons w \<and> tabContents w' = tabContents w
    \<and> activeTab w' = activeTab w \<and> events w' = events w
    \<and> (\<forall>r. data_tab (btn w' r) = data_tab (btn w r) \<and> b_active (btn w' r) = b_active (btn w r))
    \<and> (\<forall>p. p_id (pnl w' p) = p_id (pnl w p) \<and> p_active (pnl w' p) = p_active (pnl w p)))"



text \<open>
  \<open>static w w'\<close>: the document, the snapshots and the ids are the same; the weaker
  invariant \<open>busy_inv\<close> only counts the suspended calls.
\<close>

definition static :: "world \<Rightarrow> world \<Rightarrow> bool" where
  "static w w' =
     (dom_buttons w' = dom_buttons w \<and> dom_panels w' = dom_panels w
    \<and> tabButtons w' = tabButtons w \<and> tabContents w' = tabContents w
    \<and> (\<forall>r. data_tab (btn w' r) = data_tab (btn w r))
    \<and> (\<forall>p. p_id (pnl w' p) = p_id (pnl w p)))"

definition busy_inv :: "config \<Rightarrow> bool" where
  "busy_inv c =
     (case c of (w, ts) \<Rightarrow>
        (case ts of [] \<Rightarrow> \<not> transitioning w | [t] \<Rightarrow> transitioning w | _ \<Rightarrow> False))"



section \<open>Properties\<close>

lemmas page_defs = page_abc_def mk_button_def mk_panel_def

subsection \<open>Frame lemmas\<close>

lemma fold_pres: "(\<And>x w. P (f x w) = P w) \<Longrightarrow> P (fold f xs w) = P w"
  by (induction xs arbitrary: w) simp_all

lemma a11y_button_world [simp]:
  "dom_buttons (a11y_button r w) = dom_buttons w"
  "dom_panels (a11y_button r w) = dom_panels w"
  "title_el (a11y_button r w) = title_el w"
  "tabContainers (a11y_button r w) = tabContainers w"
  "tabButtons (a11y_button r w) = tabButtons w"
  "tabContents (a11y_button r w) = tabContents w"
  "activeTab (a11y_button r w) = activeTab w"
  "transitioning (a11y_button r w) = transitioning w"
  "location_hash (a11y_button r w) = location_hash w"
  "has_pushState (a11y_button r w) = has_pushState w"
  "history (a11y_button r w) = history w"
  "fetches (a11y_button r w) = fetches w"
  "console (a11y_button r w) = console w"
  "events (a11y_button r w) = events w"
  by (simp_all add: a11y_button_def Let_def upd_btn_def upd_pnl_opt_def upd_pnl_def split: option.splits)

lemma a11y_button_btn [simp]:
  "data_tab (btn (a11y_button r w) x) = data_tab (btn w x)"
  "textContent (btn (a11y_button r w) x) = textContent (btn w x)"
  "b_active (btn (a11y_button r w) x) = b_active (btn w x)"
  "b_loading (btn (a11y_button r w) x) = b_loading (btn w x)"
  by (simp_all add: a11y_button_def Let_def upd_btn_def upd_pnl_opt_def upd_pnl_def split: option.splits)

lemma a11y_button_pnl [simp]:
  "p_id (pnl (a11y_button r w) y) = p_id (pnl w y)"
  "p_active (pnl (a11y_button r w) y) = p_active (pnl w y)"
  "data_load (pnl (a11y_button r w) y) = data_load (pnl w y)"
  "data_loaded (pnl (a11y_button r w) y) = data_loaded (pnl w y)"
  "data_load_url (pnl (a11y_button r w) y) = data_load_url (pnl w y)"
  "innerHTML (pnl (a11y_button r w) y) = innerHTML (pnl w y)"
  "lazy_images (pnl (a11y_button r w) y) = lazy_images (pnl w y)"
  "opacity (pnl (a11y_button r w) y) = opacity (pnl w y)"
  "transform (pnl (a11y_button r w) y) = transform (pnl w y)"
  by (simp_all add: a11y_button_def Let_def upd_btn_def upd_pnl_opt_def upd_pnl_def split: option.splits)

lemma fold_a11y_world [simp]:
  "dom_buttons (fold a11y_button rs w) = dom_buttons w"
  "dom_panels (fold a11y_button rs w) = dom_panels w"
  "title_el (fold a11y_button rs w) = title_el w"
  "tabContainers (fold a11y_button rs w) = tabContainers w"
  "tabButtons (fold a11y_button rs w) = tabButtons w"
  "tabContents (fold a11y_button rs w) = tabContents w"
  "activeTab (fold a11y_button rs w) = activeTab w"
  "transitioning (fold a11y_button rs w) = transitioning w"
  "location_hash (fold a11y_button rs w) = location_hash w"
  "has_pushState (fold a11y_button rs w) = has_pushState w"
  "history (fold a11y_button rs w) = history w"
  "fetches (fold a11y_button rs w) = fetches w"
  "console (fold a11y_button rs w) = console w"
  "events (fold a11y_button rs w) = events w"
  by (induction rs arbitrary: w; simp)+

lemma fold_a11y_btn [simp]:
  "data_tab (btn (fold a11y_button rs w) x) = data_tab (btn w x)"
  "textContent (btn (fold a11y_button rs w) x) = textContent (btn w x)"
  "b_active (btn (fold a11y_button rs w) x) = b_active (btn w x)"
  "b_loading (btn (fold a11y_button rs w) x) = b_loading (btn w x)"
  by (induction rs arbitrary: w; simp)+

lemma fold_a11y_pnl [simp]:
  "p_id (pnl (fold a11y_button rs w) y) = p_id (pnl w y)"
  "p_active (pnl (fold a11y_button rs w) y) = p_active (pnl w y)"
  "data_load (pnl (fold a11y_button rs w) y) = data_load (pnl w y)"
  "data_loaded (pnl (fold a11y_button rs w) y) = data_loaded (pnl w y)"
  "data_load_url (pnl (fold a11y_button rs w) y) = data_load_url (pnl w y)"
  "innerHTML (pnl (fold a11y_button rs w) y) = innerHTML (pnl w y)"
  "lazy_images (pnl (fold a11y_button rs w) y) = lazy_images (pnl w y)"
  "opacity (pnl (fold a11y_button rs w) y) = opacity (pnl w y)"
  "transform (pnl (fold a11y_button rs w) y) = transform (pnl w y)"
  by (induction rs arbitrary: w; simp)+

lemma fold_a11y_query_id [simp]: "query_id (fold a11y_button rs w) t = query_id w t"
  by (simp add: query_id_def)

lemma fold_upd_btn:
  "fold (\<lambda>r. upd_btn r f) rs w = w\<lparr>btn := fold (\<lambda>r g. g(r := f (g r))) rs (btn w)\<rparr>"
  by (induction rs arbitrary: w) (simp_all add: upd_btn_def)

lemma fold_upd_pnl:
  "fold (\<lambda>r. upd_pnl r f) rs w = w\<lparr>pnl := fold (\<lambda>r g. g(r := f (g r))) rs (pnl w)\<rparr>"
  by (induction rs arbitrary: w) (simp_all add: upd_pnl_def)

subsection \<open>One call followed to its end\<close>

lemmas switch_defs = switchToTab_def switchToTab_resume_def settles_fetch_def switchToTab_catch_def
  switchToTab_finish_def preloadTabContent_def preloadTabContent_fetched_def preload_images_def
  performTabTransition_def performTabTransition_swap_def performTabTransition_fadeIn_def
  updateActiveStates_def updateTabTitleDisplay_def updateTabAccessibility_def
  dispatchTabChangeEvent_def pushState_def upd_btn_def upd_pnl_def upd_btn_opt_def upd_pnl_opt_def
  fold_upd_btn fold_upd_pnl Let_def

lemma feed_settled_id: "\<forall>t. r \<noteq> Suspended t \<Longrightarrow> feed ocs (r, w) = (r, w)"
  by (cases ocs; cases r) simp_all

lemma switchToTab_catch_settles:
  "switchToTab_catch e l w = (r, w') \<Longrightarrow>
   r = Resolved \<and> \<not> transitioning w' \<and> \<not> b_loading (btn w' (l_button l))"
  by (auto simp: switchToTab_catch_def upd_btn_def Let_def)

lemma switchToTab_finish_settles:
  "switchToTab_finish l w = (r, w') \<Longrightarrow>
   r = Resolved \<and> \<not> transitioning w' \<and> \<not> b_loading (btn w' (l_button l))"
  by (auto simp: switchToTab_finish_def upd_btn_def Let_def)




subsection \<open>What the synchronous prefix of switchToTab leaves alone\<close>


lemma switchToTab_world [simp]:
  "dom_buttons (snd (switchToTab b w)) = dom_buttons w"
  "dom_panels (snd (switchToTab b w)) = dom_panels w"
  "title_el (snd (switchToTab b w)) = title_el w"
  "tabContainers (snd (switchToTab b w)) = tabContainers w"
  "tabButtons (snd (switchToTab b w)) = tabButtons w"
  "tabContents (snd (switchToTab b w)) = tabContents w"
  "activeTab (snd (switchToTab b w)) = activeTab w"
  "has_pushState (snd (switchToTab b w)) = has_pushState w"
  "events (snd (switchToTab b w)) = events w"
  by (simp_all add: switchToTab_def preloadTabContent_def preload_images_def pushState_def
      upd_btn_def upd_pnl_def Let_def split: option.splits prod.splits)

lemma switchToTab_btn [simp]:
  "data_tab (btn (snd (switchToTab b w)) x) = data_tab (btn w x)"
  "textContent (btn (snd (switchToTab b w)) x) = textContent (btn w x)"
  "b_active (btn (snd (switchToTab b w)) x) = b_active (btn w x)"
  "aria_selected (btn (snd (switchToTab b w)) x) = aria_selected (btn w x)"
  "tabindex (btn (snd (switchToTab b w)) x) = tabindex (btn w x)"
  by (simp_all add: switchToTab_def preloadTabContent_def preload_images_def pushState_def
      upd_btn_def upd_pnl_def Let_def split: option.splits prod.splits)

lemma switchToTab_pnl [simp]:
  "p_id (pnl (snd (switchToTab b w)) y) = p_id (pnl w y)"
  "p_active (pnl (snd (switchToTab b w)) y) = p_active (pnl w y)"
  "data_load (pnl (snd (switchToTab b w)) y) = data_load (pnl w y)"
  "data_loaded (pnl (snd (switchToTab b w)) y) = data_loaded (pnl w y)"
  "data_load_url (pnl (snd (switchToTab b w)) y) = data_load_url (pnl w y)"
  "innerHTML (pnl (snd (switchToTab b w)) y) = innerHTML (pnl w y)"
  "opacity (pnl (snd (switchToTab b w)) y) = opacity (pnl w y)"
  "transform (pnl (snd (switchToTab b w)) y) = transform (pnl w y)"
  "aria_hidden (pnl (snd (switchToTab b w)) y) = aria_hidden (pnl w y)"
  by (simp_all add: switchToTab_def preloadTabContent_def preload_images_def pushState_def
      upd_btn_def upd_pnl_def Let_def split: option.splits prod.splits)

lemma updateTabAccessibility_world [simp]:
  "dom_buttons (updateTabAccessibility w) = dom_buttons w"
  "dom_panels (updateTabAccessibility w) = dom_panels w"
  "tabButtons (updateTabAccessibility w) = tabButtons w"
  "tabContents (updateTabAccessibility w) = tabContents w"
  "console (updateTabAccessibility w) = console w"
  "transitioning (updateTabAccessibility w) = transitioning w"
  "activeTab (updateTabAccessibility w) = activeTab w"
  by (simp_all add: updateTabAccessibility_def)

lemma setInitialActiveTab_lists [simp]:
  "tabButtons (snd (setInitialActiveTab w)) = tabButtons w"
  "dom_buttons (snd (setInitialActiveTab w)) = dom_buttons w"
  by (simp_all add: setInitialActiveTab_def Let_def split: option.splits list.splits)

lemma switchToTab_missing:
  assumes "\<not> transitioning w" "\<not> b_active (btn w b)"
    "query_id w (js_str (data_tab (btn w b))) = None"
  shows "switchToTab b w =
        (Resolved, w\<lparr>console := console w @
            [Warn (''Tab content not found for: '' @ js_str (data_tab (btn w b)))]\<rparr>)"
  using assms by (simp add: switchToTab_def Let_def query_id_def)

subsection \<open>The steps of a suspended call\<close>

lemma quiet_refl [simp]: "quiet w w"
  by (simp add: quiet_def)

lemma quiet_trans: "quiet w w1 \<Longrightarrow> quiet w1 w2 \<Longrightarrow> quiet w w2"
  by (simp add: quiet_def)



lemma switchToTab_catch_quiet: "quiet w (snd (switchToTab_catch e l w))"
  by (simp add: quiet_def switchToTab_catch_def upd_btn_def Let_def)

lemma preloadTabContent_fetched_quiet: "quiet w (snd (preloadTabContent_fetched oc c w))"
  by (cases oc) (simp_all add: quiet_def preloadTabContent_fetched_def preload_images_def upd_pnl_def Let_def)

lemma performTabTransition_quiet: "quiet w (performTabTransition l w)"
  by (simp add: quiet_def performTabTransition_def upd_pnl_opt_def upd_pnl_def split: option.splits)

lemma performTabTransition_fadeIn_quiet: "quiet w (performTabTransition_fadeIn l w)"
  by (simp add: quiet_def performTabTransition_fadeIn_def upd_pnl_def)

lemma switchToTab_resume_effect:
  assumes "switchToTab_resume oc (Task st l) w = (r, w1)"
  shows "(r = Suspended (Task st l) \<and> w1 = w)
       \<or> (\<exists>st'. r = Suspended (Task st' l) \<and> st \<noteq> AwaitFadeIn \<and> st' \<noteq> AwaitFadeIn
              \<and> quiet w w1 \<and> transitioning w1 = transitioning w)
       \<or> (r = Resolved \<and> quiet w w1 \<and> \<not> transitioning w1)
       \<or> (st = AwaitFadeOut \<and> r = Suspended (Task AwaitFadeIn l)
              \<and> w1 = performTabTransition_swap l w)
       \<or> (st = AwaitFadeIn \<and> (r, w1) = switchToTab_finish l (performTabTransition_fadeIn l w))"
proof (cases st)
  case AwaitFetch
  show ?thesis
  proof (cases "settles_fetch oc")
    case False
    with assms AwaitFetch show ?thesis by (auto simp: switchToTab_resume_def)
  next
    case True
    obtain x w2 where f: "preloadTabContent_fetched oc (l_targetContent l) w = (x, w2)"
      by (cases "preloadTabContent_fetched oc (l_targetContent l) w")
    have q: "quiet w w2" using preloadTabContent_fetched_quiet [of w oc "l_targetContent l"] f by simp
    have t: "transitioning w2 = transitioning w"
      using f by (cases oc) (auto simp: preloadTabContent_fetched_def preload_images_def upd_pnl_def Let_def)
    show ?thesis
    proof (cases x)
      case (Inl e)
      have "quiet w2 (snd (switchToTab_catch e l w2))" by (rule switchToTab_catch_quiet)
      with q have "quiet w (snd (switchToTab_catch e l w2))" by (rule quiet_trans)
      moreover have "switchToTab_catch e l w2 = (r, w1)"
        using assms AwaitFetch True f Inl by (simp add: switchToTab_resume_def)
      ultimately show ?thesis using switchToTab_catch_settles [of e l w2 r w1] by auto
    next
      case (Inr st')
      then have "st' \<noteq> AwaitFadeIn"
        using f by (cases oc) (auto simp: preloadTabContent_fetched_def preload_images_def Let_def)
      moreover have "r = Suspended (Task st' l)" "w1 = w2"
        using assms AwaitFetch True f Inr by (simp_all add: switchToTab_resume_def)
      ultimately show ?thesis using q t AwaitFetch by auto
    qed
  qed
next
  case (AwaitImages n)
  consider (ok) "oc = ImagesOk" | (fail) "oc = ImagesFail" "0 < n"
    | (other) "oc \<noteq> ImagesOk" "\<not> (oc = ImagesFail \<and> 0 < n)" by blast
  then show ?thesis
  proof cases
    case ok
    with assms AwaitImages have "r = Suspended (Task AwaitFadeOut l)" "w1 = performTabTransition l w"
      by (simp_all add: switchToTab_resume_def)
    moreover have "transitioning (performTabTransition l w) = transitioning w"
      by (simp add: performTabTransition_def upd_pnl_opt_def upd_pnl_def split: option.splits)
    ultimately show ?thesis using AwaitImages performTabTransition_quiet [of w l] by auto
  next
    case fail
    with assms AwaitImages have c: "switchToTab_catch ImageFailed l w = (r, w1)"
      by (simp add: switchToTab_resume_def)
    then show ?thesis
      using switchToTab_catch_settles [OF c] switchToTab_catch_quiet [of w ImageFailed l] by auto
  next
    case other
    with assms AwaitImages show ?thesis by (auto simp: switchToTab_resume_def)
  qed
next
  case AwaitFadeOut
  with assms show ?thesis by (auto simp: switchToTab_resume_def split: if_splits)
next
  case AwaitFadeIn
  with assms show ?thesis by (auto simp: switchToTab_resume_def split: if_splits)
qed



lemma swap_world [simp]:
  "dom_buttons (performTabTransition_swap l w) = dom_buttons w"
  "dom_panels (performTabTransition_swap l w) = dom_panels w"
  "tabButtons (performTabTransition_swap l w) = tabButtons w"
  "tabContents (performTabTransition_swap l w) = tabContents w"
  "transitioning (performTabTransition_swap l w) = transitioning w"
  "fetches (performTabTransition_swap l w) = fetches w"
  "events (performTabTransition_swap l w) = events w"
  by (simp_all add: performTabTransition_swap_def upd_btn_def upd_pnl_def upd_btn_opt_def
      upd_pnl_opt_def Let_def split: option.splits)


lemma fold_clear_buttons:
  "fold (\<lambda>r g. g(r := g r\<lparr>b_active := False\<rparr>)) rs g x =
     (if x \<in> set rs then (g x)\<lparr>b_active := False\<rparr> else g x)"
  by (induction rs arbitrary: g) auto

lemma fold_clear_panels:
  "fold (\<lambda>c g. g(c := g c\<lparr>p_active := False, opacity := Some ''0'',
                          transform := Some ''translateY(10px)''\<rparr>)) cs g x =
     (if x \<in> set cs
      then (g x)\<lparr>p_active := False, opacity := Some ''0'', transform := Some ''translateY(10px)''\<rparr>
      else g x)"
  by (induction cs arbitrary: g) auto

lemma updateActiveStates_world [simp]:
  "dom_buttons (updateActiveStates b c w) = dom_buttons w"
  "dom_panels (updateActiveStates b c w) = dom_panels w"
  "tabButtons (updateActiveStates b c w) = tabButtons w"
  "tabContents (updateActiveStates b c w) = tabContents w"
  "transitioning (updateActiveStates b c w) = transitioning w"
  "fetches (updateActiveStates b c w) = fetches w"
  "events (updateActiveStates b c w) = events w"
  "activeTab (updateActiveStates b c w) = activeTab w"
  by (simp_all add: updateActiveStates_def updateTabAccessibility_def updateTabTitleDisplay_def
      fold_upd_btn fold_upd_pnl upd_btn_def upd_pnl_def Let_def split: option.splits)


lemma updateActiveStates_ids [simp]:
  "data_tab (btn (updateActiveStates b c w) r) = data_tab (btn w r)"
  "p_id (pnl (updateActiveStates b c w) p) = p_id (pnl w p)"
  "data_loaded (pnl (updateActiveStates b c w) p) = data_loaded (pnl w p)"
  by (auto simp: updateActiveStates_def updateTabAccessibility_def updateTabTitleDisplay_def
      fold_upd_btn fold_upd_pnl fold_clear_buttons fold_clear_panels upd_btn_def upd_pnl_def Let_def split: option.splits)

lemma finish_world [simp]:
  "dom_buttons (snd (switchToTab_finish l w)) = dom_buttons w"
  "dom_panels (snd (switchToTab_finish l w)) = dom_panels w"
  "tabButtons (snd (switchToTab_finish l w)) = tabButtons w"
  "tabContents (snd (switchToTab_finish l w)) = tabContents w"
  "fetches (snd (switchToTab_finish l w)) = fetches w"
  "activeTab (snd (switchToTab_finish l w)) = l_targetTab l"
  "fst (switchToTab_finish l w) = Resolved"
  by (simp_all add: switchToTab_finish_def dispatchTabChangeEvent_def upd_btn_def Let_def)


lemma finish_ids [simp]:
  "data_tab (btn (snd (switchToTab_finish l w)) r) = data_tab (btn w r)"
  "p_id (pnl (snd (switchToTab_finish l w)) p) = p_id (pnl w p)"
  "data_loaded (pnl (snd (switchToTab_finish l w)) p) = data_loaded (pnl w p)"
  by (simp_all add: switchToTab_finish_def dispatchTabChangeEvent_def upd_btn_def Let_def)

subsection \<open>The invariant of the event loop\<close>

lemma switchToTab_started:
  assumes "\<not> transitioning w" and "\<not> b_active (btn w b)"
    and "query_id w (js_str (data_tab (btn w b))) = Some c"
  shows "\<exists>st w'. switchToTab b w =
           (Suspended (Task st \<lparr>l_button = b, l_targetTab = data_tab (btn w b),
              l_targetContent = c, l_currentButton = query_active_button w,
              l_currentContent = query_active_content w\<rparr>), w')
         \<and> (st = AwaitFetch \<or> (\<exists>k. st = AwaitImages k)) \<and> transitioning w'"
  using assms
  by (simp add: switchToTab_def preloadTabContent_def preload_images_def pushState_def
      upd_btn_def upd_pnl_def query_id_def query_active_button_def query_active_content_def Let_def)







subsection \<open>Runs of the event loop and completed switches\<close>

lemma run_Cons [simp]: "run (ev # evs) c = run evs (step ev c)"
  by (simp add: run_def)

lemma run_Nil [simp]: "run [] c = c"
  by (simp add: run_def)

lemma run_settle_idle: "run (map (Settle k) ocs) (w, []) = (w, [])"
  by (induction ocs) simp_all

lemma run_settle_single:
  "run (map (Settle 0) ocs) (w, [t]) =
     (case feed ocs (Suspended t, w) of
        (Suspended t', w') \<Rightarrow> (w', [t'])
      | (_, w') \<Rightarrow> (w', []))"
proof (induction ocs arbitrary: t w)
  case Nil
  then show ?case by simp
next
  case (Cons oc ocs)
  obtain r w1 where res: "switchToTab_resume oc t w = (r, w1)"
    by (cases "switchToTab_resume oc t w")
  show ?case
  proof (cases r)
    case (Suspended t')
    with res Cons show ?thesis by simp
  next
    case Resolved
    with res show ?thesis by (simp add: run_settle_idle feed_settled_id)
  next
    case (Rejected e)
    with res show ?thesis by (simp add: run_settle_idle feed_settled_id)
  qed
qed

lemma quiet_static: "quiet w w' \<Longrightarrow> static w w'"
  by (simp add: quiet_def static_def)

lemma static_refl [simp]: "static w w"
  by (simp add: static_def)

lemma static_trans: "static w w1 \<Longrightarrow> static w1 w2 \<Longrightarrow> static w w2"
  by (simp add: static_def)

lemma swap_static: "static w (performTabTransition_swap l w)"
  by (simp add: static_def performTabTransition_swap_def upd_btn_def upd_pnl_def upd_btn_opt_def
      upd_pnl_opt_def Let_def split: option.splits)

lemma swap_events: "events (performTabTransition_swap l w) = events w"
  by simp


lemma fetched_ok_stage:
  "fst (preloadTabContent_fetched (FetchOk h n) c w) = Inr (AwaitImages n)"
  by (simp add: preloadTabContent_fetched_def preload_images_def upd_pnl_def Let_def)

lemma feed_success:
  assumes "st = AwaitFetch \<or> (\<exists>k. st = AwaitImages k)"
  shows "\<exists>w'. feed [FetchOk h n, ImagesOk, TimerFired, TimerFired] (Suspended (Task st l), w) =
           switchToTab_finish l w' \<and> static w w'"
proof -
  let ?fin = "\<lambda>w. performTabTransition_fadeIn l (performTabTransition_swap l (performTabTransition l w))"
  have st: "static w0 (?fin w0)" for w0
    using static_trans [OF quiet_static [OF performTabTransition_quiet [of w0 l]]
        static_trans [OF swap_static quiet_static [OF performTabTransition_fadeIn_quiet]]]
    by blast
  from assms show ?thesis
  proof
    assume f: "st = AwaitFetch"
    obtain x w1 where p: "preloadTabContent_fetched (FetchOk h n) (l_targetContent l) w = (x, w1)"
      by (cases "preloadTabContent_fetched (FetchOk h n) (l_targetContent l) w")
    with fetched_ok_stage [of h n "l_targetContent l" w] have x: "x = Inr (AwaitImages n)" by simp
    have "feed [FetchOk h n, ImagesOk, TimerFired, TimerFired] (Suspended (Task st l), w) =
        switchToTab_finish l (?fin w1)"
      using f p x by (simp add: switchToTab_resume_def settles_fetch_def)
    moreover have "static w w1"
      using quiet_static [OF preloadTabContent_fetched_quiet [of w "FetchOk h n" "l_targetContent l"]] p
      by simp
    ultimately show ?thesis using static_trans [OF _ st [of w1]] by blast
  next
    assume "\<exists>k. st = AwaitImages k"
    then obtain k where "st = AwaitImages k" ..
    then have "feed [FetchOk h n, ImagesOk, TimerFired, TimerFired] (Suspended (Task st l), w) =
        switchToTab_finish l (?fin w)"
      by (simp add: switchToTab_resume_def settles_fetch_def)
    with st [of w] show ?thesis by blast
  qed
qed

subsection \<open>Accessibility attributes after updateActiveStates\<close>










subsection \<open>Startup\<close>


subsection \<open>Loaded panels are not fetched again\<close>

lemma switchToTab_catch_loaded [simp]:
  "fetches (snd (switchToTab_catch e l w)) = fetches w"
  "data_loaded (pnl (snd (switchToTab_catch e l w)) p) = data_loaded (pnl w p)"
  by (simp_all add: switchToTab_catch_def upd_btn_def Let_def)

lemma fetched_loaded:
  "fetches (snd (preloadTabContent_fetched oc c w)) = fetches w"
  "data_loaded (pnl w p) \<Longrightarrow> data_loaded (pnl (snd (preloadTabContent_fetched oc c w)) p)"
proof -
  show "fetches (snd (preloadTabContent_fetched oc c w)) = fetches w"
    by (cases oc) (simp_all add: preloadTabContent_fetched_def preload_images_def upd_pnl_def Let_def)
  show "data_loaded (pnl w p) \<Longrightarrow> data_loaded (pnl (snd (preloadTabContent_fetched oc c w)) p)"
    by (cases oc) (auto simp: preloadTabContent_fetched_def preload_images_def upd_pnl_def Let_def)
qed

lemma transition_loaded [simp]:
  "fetches (performTabTransition l w) = fetches w"
  "data_loaded (pnl (performTabTransition l w) p) = data_loaded (pnl w p)"
  "data_loaded (pnl (performTabTransition_swap l w) p) = data_loaded (pnl w p)"
  "fetches (performTabTransition_fadeIn l w) = fetches w"
  "data_loaded (pnl (performTabTransition_fadeIn l w) p) = data_loaded (pnl w p)"
  by (simp_all add: performTabTransition_def performTabTransition_swap_def
      performTabTransition_fadeIn_def upd_btn_def upd_pnl_def upd_btn_opt_def upd_pnl_opt_def
      Let_def split: option.splits)

lemma resume_loaded:
  "fetches (snd (switchToTab_resume oc t w)) = fetches w"
  "data_loaded (pnl w p) \<Longrightarrow> data_loaded (pnl (snd (switchToTab_resume oc t w)) p)"
proof -
  obtain st l where t: "t = Task st l" by (cases t)
  obtain x w1 where f: "preloadTabContent_fetched oc (l_targetContent l) w = (x, w1)"
    by (cases "preloadTabContent_fetched oc (l_targetContent l) w")
  with fetched_loaded(1) [of oc "l_targetContent l" w] fetched_loaded(2) [of w p oc "l_targetContent l"]
  have w1: "fetches w1 = fetches w" "data_loaded (pnl w p) \<Longrightarrow> data_loaded (pnl w1 p)"
    by simp_all
  show "fetches (snd (switchToTab_resume oc t w)) = fetches w"
    using w1(1) f by (cases st; cases x) (simp_all add: t switchToTab_resume_def)
  show "data_loaded (pnl w p) \<Longrightarrow> data_loaded (pnl (snd (switchToTab_resume oc t w)) p)"
    using w1(2) f by (cases st; cases x) (simp_all add: t switchToTab_resume_def)
qed

lemma switchToTab_fetches:
  "data_loaded (pnl w p) \<Longrightarrow>
   filter (\<lambda>f. fst f = p) (fetches (snd (switchToTab b w))) = filter (\<lambda>f. fst f = p) (fetches w)"
  by (simp add: switchToTab_def preloadTabContent_def preload_images_def pushState_def
      upd_btn_def upd_pnl_def Let_def split: option.splits)

lemma step_loaded:
  assumes "data_loaded (pnl (fst c) p)"
  shows "data_loaded (pnl (fst (step ev c)) p)
       \<and> filter (\<lambda>f. fst f = p) (fetches (fst (step ev c))) = filter (\<lambda>f. fst f = p) (fetches (fst c))"
proof (cases c)
  case (Pair w ts)
  show ?thesis
  proof (cases ev)
    case (Request b)
    obtain r w1 where s: "switchToTab b w = (r, w1)" by (cases "switchToTab b w")
    with switchToTab_pnl(4) [of b w p] switchToTab_fetches [of w p b] assms Pair
    have "data_loaded (pnl w1 p)"
      "filter (\<lambda>f. fst f = p) (fetches w1) = filter (\<lambda>f. fst f = p) (fetches w)"
      by simp_all
    with s Pair Request show ?thesis by (cases r) simp_all
  next
    case (Settle k oc)
    show ?thesis
    proof (cases "k < length ts")
      case False
      with Pair Settle assms show ?thesis by simp
    next
      case True
      obtain r w1 where s: "switchToTab_resume oc (ts ! k) w = (r, w1)"
        by (cases "switchToTab_resume oc (ts ! k) w")
      with resume_loaded(1) [of oc "ts ! k" w] resume_loaded(2) [of w p oc "ts ! k"] assms Pair
      have "data_loaded (pnl w1 p)" "fetches w1 = fetches w" by simp_all
      with s Pair Settle True show ?thesis by (cases r) simp_all
    qed
  qed
qed

lemma run_loaded:
  "data_loaded (pnl (fst c) p) \<Longrightarrow>
   data_loaded (pnl (fst (run evs c)) p)
   \<and> filter (\<lambda>f. fst f = p) (fetches (fst (run evs c))) = filter (\<lambda>f. fst f = p) (fetches (fst c))"
proof (induction evs arbitrary: c)
  case Nil
  then show ?case by simp
next
  case (Cons ev evs)
  from step_loaded [OF Cons.prems, of ev] Cons.IH [of "step ev c"] show ?case by simp
qed

lemma busy_inv_request:
  assumes "busy_inv (w, ts)"
  shows "busy_inv (step (Request b) (w, ts))"
proof (cases "transitioning w \<or> b_active (btn w b)")
  case True
  then have "switchToTab b w = (Resolved, w)" by (auto simp: switchToTab_def)
  with assms show ?thesis by simp
next
  case False
  then have idle: "\<not> transitioning w" "\<not> b_active (btn w b)" by simp_all
  with assms have ts: "ts = []" by (auto simp: busy_inv_def split: list.splits)
  show ?thesis
  proof (cases "query_id w (js_str (data_tab (btn w b)))")
    case None
    from switchToTab_missing [OF idle None] idle ts show ?thesis
      by (simp add: busy_inv_def)
  next
    case (Some c)
    from switchToTab_started [OF idle Some] obtain t w' where
      "switchToTab b w = (Suspended t, w')" "transitioning w'" by blast
    with ts show ?thesis by (simp add: busy_inv_def)
  qed
qed

lemma busy_inv_settle:
  assumes "busy_inv (w, ts)"
  shows "busy_inv (step (Settle k oc) (w, ts))"
proof (cases "k < length ts")
  case False
  with assms show ?thesis by simp
next
  case True
  with assms obtain st l where ts: "ts = [Task st l]" and k: "k = 0" and tr: "transitioning w"
    by (cases ts; cases "tl ts"; cases "hd ts") (auto simp: busy_inv_def)
  obtain r w1 where res: "switchToTab_resume oc (Task st l) w = (r, w1)"
    by (cases "switchToTab_resume oc (Task st l) w")
  have fin: "(r, w1) = switchToTab_finish l (performTabTransition_fadeIn l w) \<Longrightarrow>
      r = Resolved \<and> \<not> transitioning w1"
    using switchToTab_finish_settles [of l "performTabTransition_fadeIn l w" r w1] by simp
  from switchToTab_resume_effect [OF res] fin tr
  have "(\<exists>t'. r = Suspended t' \<and> transitioning w1 = transitioning w)
      \<or> (r = Resolved \<and> \<not> transitioning w1)"
    by auto
  then consider (waits) t' where "r = Suspended t'" "transitioning w1 = transitioning w"
    | (settled) "r = Resolved" "\<not> transitioning w1"
    by blast
  then show ?thesis
  proof cases
    case waits
    with ts k res tr show ?thesis by (simp add: busy_inv_def)
  next
    case settled
    with ts k res show ?thesis by (simp add: busy_inv_def)
  qed
qed

lemma busy_inv_run: "busy_inv c \<Longrightarrow> busy_inv (run evs c)"
proof (induction evs arbitrary: c)
  case Nil
  then show ?case by simp
next
  case (Cons ev evs)
  from Cons.prems have "busy_inv (step ev c)"
    by (cases c; cases ev) (simp_all only: busy_inv_request busy_inv_settle)
  with Cons.IH show ?case by simp
qed

section \<open>Claims\<close>

text \<open>
  C1. While a switch is in progress (\<open>transitioning\<close> is set), a further call of
  \<open>switchToTab\<close> returns at once and leaves the world as it is: no fetch, no animation,
  no URL write, no notification, and no call is queued, so everything that follows is what
  follows the first request alone. In particular, when a second request arrives while the
  first, made in an idle state for a tab with a panel, is in flight and the first then
  loads and animates, the active tab at the end is the target of the first request.
\<close>

theorem busy_request_dropped:
  "(transitioning w \<longrightarrow>
      switchToTab b2 w = (Resolved, w) \<and> step (Request b2) (w, ts) = (w, ts)
      \<and> run (Request b2 # evs) (w, ts) = run evs (w, ts))
   \<and> (\<not> transitioning w0 \<and> \<not> b_active (btn w0 b1)
        \<and> query_id w0 (js_str (data_tab (btn w0 b1))) = Some c \<longrightarrow>
      transitioning (fst (step (Request b1) (w0, [])))
      \<and> activeTab (fst (run [Request b1, Request b2, Settle 0 (FetchOk h n), Settle 0 ImagesOk,
                              Settle 0 TimerFired, Settle 0 TimerFired] (w0, [])))
          = data_tab (btn w0 b1))"
proof (intro conjI impI)
  assume "transitioning w"
  then show "switchToTab b2 w = (Resolved, w)" by (simp add: switchToTab_def)
  then show "step (Request b2) (w, ts) = (w, ts)" by simp
  then show "run (Request b2 # evs) (w, ts) = run evs (w, ts)" by simp
next
  assume a: "\<not> transitioning w0 \<and> \<not> b_active (btn w0 b1)
        \<and> query_id w0 (js_str (data_tab (btn w0 b1))) = Some c"
  then obtain st w1 where
    s: "switchToTab b1 w0 =
           (Suspended (Task st \<lparr>l_button = b1, l_targetTab = data_tab (btn w0 b1),
              l_targetContent = c, l_currentButton = query_active_button w0,
              l_currentContent = query_active_content w0\<rparr>), w1)"
    and st: "st = AwaitFetch \<or> (\<exists>k. st = AwaitImages k)" and tr: "transitioning w1"
    using switchToTab_started [of w0 b1 c] by blast
  let ?l = "\<lparr>l_button = b1, l_targetTab = data_tab (btn w0 b1),
              l_targetContent = c, l_currentButton = query_active_button w0,
              l_currentContent = query_active_content w0\<rparr>"
  from s tr show "transitioning (fst (step (Request b1) (w0, [])))" by simp
  from tr have drop: "switchToTab b2 w1 = (Resolved, w1)" by (simp add: switchToTab_def)
  from feed_success [OF st, of h n ?l w1] obtain w' where
    f: "feed [FetchOk h n, ImagesOk, TimerFired, TimerFired] (Suspended (Task st ?l), w1) =
           switchToTab_finish ?l w'" by blast
  have "run [Request b1, Request b2, Settle 0 (FetchOk h n), Settle 0 ImagesOk,
             Settle 0 TimerFired, Settle 0 TimerFired] (w0, []) =
        run (map (Settle 0) [FetchOk h n, ImagesOk, TimerFired, TimerFired]) (w1, [Task st ?l])"
    using s drop by simp
  also have "\<dots> = (snd (switchToTab_finish ?l w'), [])"
    unfolding run_settle_single f
    by (cases "switchToTab_finish ?l w'") (use finish_world(7) [of ?l w'] in simp)
  finally show "activeTab (fst (run [Request b1, Request b2, Settle 0 (FetchOk h n), Settle 0 ImagesOk,
                              Settle 0 TimerFired, Settle 0 TimerFired] (w0, [])))
          = data_tab (btn w0 b1)"
    by simp
qed

theorem busy_request_dropped_witness:
  "\<not> transitioning (page_abc []) \<and> \<not> b_active (btn (page_abc []) 2)
   \<and> query_id (page_abc []) (js_str (data_tab (btn (page_abc []) 2))) = Some 2
   \<and> transitioning (fst (step (Request 2) (page_abc [], [])))
   \<and> step (Request 0) (step (Request 2) (page_abc [], [])) = step (Request 2) (page_abc [], [])
   \<and> activeTab (fst (run [Request 2, Request 0, Settle 0 (FetchOk ''<p>c</p>'' 0),
                          Settle 0 ImagesOk, Settle 0 TimerFired, Settle 0 TimerFired]
                         (page_abc [], []))) = Some ''C''"
proof -
  let ?c1 = "step (Request 2) (page_abc [], [])"
  have h: "\<not> transitioning (page_abc [])" "\<not> b_active (btn (page_abc []) 2)"
    "query_id (page_abc []) (js_str (data_tab (btn (page_abc []) 2))) = Some 2"
    by (simp_all add: page_defs query_id_def js_str_def)
  have t: "data_tab (btn (page_abc []) 2) = Some ''C''"
    by (simp add: page_defs)
  note dropped = busy_request_dropped [where w = "fst ?c1" and ts = "snd ?c1" and ?b2.0 = 0
        and evs = "[]" and ?w0.0 = "page_abc []" and ?b1.0 = 2 and c = 2
        and h = "''<p>c</p>''" and n = 0]
  from dropped h have busy: "transitioning (fst ?c1)" by blast
  from dropped busy have "step (Request 0) (fst ?c1, snd ?c1) = (fst ?c1, snd ?c1)" by blast
  then have same: "step (Request 0) ?c1 = ?c1" by simp
  from dropped h have "activeTab (fst (run [Request 2, Request 0, Settle 0 (FetchOk ''<p>c</p>'' 0),
      Settle 0 ImagesOk, Settle 0 TimerFired, Settle 0 TimerFired] (page_abc [], [])))
      = data_tab (btn (page_abc []) 2)" by blast
  then have final: "activeTab (fst (run [Request 2, Request 0, Settle 0 (FetchOk ''<p>c</p>'' 0),
      Settle 0 ImagesOk, Settle 0 TimerFired, Settle 0 TimerFired] (page_abc [], [])))
      = Some ''C''" unfolding t .
  show ?thesis
    using h busy same final by (intro conjI)
qed

text \<open>
  C2, as the spec states it, fails: \<open>history.pushState\<close> is called before the load
  starts, so a switch whose fetch fails has already written the address fragment, and the
  error is caught and logged, so the call settles successfully instead of surfacing it.
  When the fetch succeeds and an embedded image fails, the error is caught in the same
  way and the panel keeps the fetched content: no retry markup is written.
\<close>

theorem failed_fetch_counterexample:
  "\<not> transitioning (page_abc []) \<and> location_hash (page_abc []) = []
   \<and> fst (feed [FetchFail] (switchToTab 2 (page_abc []))) = Resolved
   \<and> fst (feed [FetchFail] (switchToTab 2 (page_abc []))) \<noteq> Rejected FetchFailed
   \<and> activeTab (snd (feed [FetchFail] (switchToTab 2 (page_abc [])))) = None
   \<and> location_hash (snd (feed [FetchFail] (switchToTab 2 (page_abc [])))) = ''#C''
   \<and> history (snd (feed [FetchFail] (switchToTab 2 (page_abc [])))) = [''#C'']
   \<and> fst (feed [FetchOk ''<img data-src=x>'' 1, ImagesFail] (switchToTab 2 (page_abc []))) = Resolved
   \<and> innerHTML (pnl (snd (feed [FetchOk ''<img data-src=x>'' 1, ImagesFail]
                               (switchToTab 2 (page_abc [])))) 2) = ''<img data-src=x>''
   \<and> console (snd (feed [FetchOk ''<img data-src=x>'' 1, ImagesFail]
                        (switchToTab 2 (page_abc [])))) = [Error ImageFailed]"
  by (simp add: page_defs switch_defs query_id_def js_str_def query_active_button_def
        query_active_content_def truthy_url_def)

text \<open>
  C2, amended. When the fetch for the target panel fails, the retry markup is written
  into the target panel, the error is logged on the console and the call settles
  successfully, \<open>transitioning\<close> is false again and the trigger has lost \<open>tab-loading\<close>;
  \<open>activeTab\<close>, every \<open>active\<close> class, style and ARIA attribute and the list of
  notifications are as before. What the failed switch leaves behind besides is the
  fetch it issued and the address fragment, already set to the target.
\<close>

theorem failed_fetch_outcome:
  assumes "\<not> transitioning w" and "\<not> b_active (btn w b)"
    and "query_id w (js_str (data_tab (btn w b))) = Some c"
    and "data_load (pnl w c)" and "\<not> data_loaded (pnl w c)"
    and "truthy_url (data_load_url (pnl w c))"
  shows "feed [FetchFail] (switchToTab b w) =
     (Resolved,
      (if has_pushState w then pushState (''#'' @ js_str (data_tab (btn w b))) w else w)
        \<lparr>btn := (btn w)(b := (btn w b)\<lparr>b_loading := False\<rparr>),
         pnl := (pnl w)(c := (pnl w c)\<lparr>innerHTML := retry_markup, lazy_images := 0\<rparr>),
         fetches := fetches w @ [(c, js_str (data_load_url (pnl w c)))],
         console := console w @ [Error FetchFailed]\<rparr>)"
  using assms
  by (simp add: switch_defs query_id_def)

theorem failed_fetch_outcome_witness:
  "\<not> transitioning (page_abc []) \<and> \<not> b_active (btn (page_abc []) 2)
   \<and> query_id (page_abc []) (js_str (data_tab (btn (page_abc []) 2))) = Some 2
   \<and> data_load (pnl (page_abc []) 2) \<and> \<not> data_loaded (pnl (page_abc []) 2)
   \<and> truthy_url (data_load_url (pnl (page_abc []) 2))
   \<and> fst (feed [FetchFail] (switchToTab 2 (page_abc []))) = Resolved
   \<and> innerHTML (pnl (snd (feed [FetchFail] (switchToTab 2 (page_abc [])))) 2) = retry_markup
   \<and> activeTab (snd (feed [FetchFail] (switchToTab 2 (page_abc [])))) = activeTab (page_abc [])
   \<and> \<not> transitioning (snd (feed [FetchFail] (switchToTab 2 (page_abc []))))
   \<and> events (snd (feed [FetchFail] (switchToTab 2 (page_abc [])))) = []
   \<and> console (snd (feed [FetchFail] (switchToTab 2 (page_abc [])))) = [Error FetchFailed]
   \<and> map (\<lambda>r. b_active (btn (snd (feed [FetchFail] (switchToTab 2 (page_abc [])))) r)) [0, 1, 2]
       = [False, True, False]"
proof -
  have h: "\<not> transitioning (page_abc [])" "\<not> b_active (btn (page_abc []) 2)"
    "query_id (page_abc []) (js_str (data_tab (btn (page_abc []) 2))) = Some 2"
    "data_load (pnl (page_abc []) 2)" "\<not> data_loaded (pnl (page_abc []) 2)"
    "truthy_url (data_load_url (pnl (page_abc []) 2))"
    by (simp_all add: page_defs query_id_def js_str_def truthy_url_def)
  show ?thesis
    using h failed_fetch_outcome [OF h]
    by (simp add: pushState_def) (simp add: page_defs)
qed

text \<open>
  C3. Requesting a switch to the tab whose trigger already carries the class \<open>active\<close>
  returns at once and successfully, and the world afterwards is the world before: no
  fetch, no animation, no URL write, no notification, in an idle state as in any other.
\<close>

theorem switchToTab_active_noop:
  "b_active (btn w b) \<Longrightarrow> switchToTab b w = (Resolved, w)"
  by (simp add: switchToTab_def)

theorem switchToTab_active_noop_witness:
  "\<not> transitioning (page_abc []) \<and> b_active (btn (page_abc []) 1)
   \<and> switchToTab 1 (page_abc []) = (Resolved, page_abc [])"
  using switchToTab_active_noop [of "page_abc []" 1]
  by (simp add: page_defs)

text \<open>
  C4, as the spec states it, fails in its second half: \<open>preloadTabContent\<close> keeps no
  record of a fetch in flight. A second call for the same panel before the first fetch has
  settled issues a second request.
\<close>

theorem concurrent_preload_counterexample:
  "fst (preloadTabContent 2 (page_abc [])) = AwaitFetch
   \<and> fetches (snd (preloadTabContent 2 (page_abc []))) = [(2, ''c.html'')]
   \<and> fst (preloadTabContent 2 (snd (preloadTabContent 2 (page_abc [])))) = AwaitFetch
   \<and> fetches (snd (preloadTabContent 2 (snd (preloadTabContent 2 (page_abc [])))))
       = [(2, ''c.html''), (2, ''c.html'')]"
  by (simp add: page_defs preloadTabContent_def truthy_url_def js_str_def)

text \<open>
  C4, amended. \<open>preloadTabContent\<close> fetches exactly when the panel asks for remote
  content and is not yet marked \<open>data-loaded\<close>; a successful fetch sets the mark and a
  failed one leaves it as it was, so that a retry fetches again. Once the mark is set it
  stays, and no sequence of switch requests and settlements fetches that panel again.
  Calls do not share a fetch in flight; through \<open>switchToTab\<close> at most one call is
  suspended at any time, the \<open>transitioning\<close> guard dropping the others.
\<close>

theorem loaded_panel_not_fetched_again:
  "(data_loaded (pnl w c) \<longrightarrow>
      preloadTabContent c w = preload_images c w
      \<and> fetches (snd (preloadTabContent c w)) = fetches w)
   \<and> (data_load (pnl w c) \<and> \<not> data_loaded (pnl w c) \<and> truthy_url (data_load_url (pnl w c)) \<longrightarrow>
      preloadTabContent c w
        = (AwaitFetch, w\<lparr>fetches := fetches w @ [(c, js_str (data_load_url (pnl w c)))]\<rparr>))
   \<and> data_loaded (pnl (snd (preloadTabContent_fetched (FetchOk h n) c w)) c)
   \<and> data_loaded (pnl (snd (preloadTabContent_fetched FetchFail c w)) c) = data_loaded (pnl w c)
   \<and> (data_loaded (pnl w c) \<longrightarrow>
      data_loaded (pnl (fst (run evs (w, ts))) c)
      \<and> filter (\<lambda>f. fst f = c) (fetches (fst (run evs (w, ts))))
          = filter (\<lambda>f. fst f = c) (fetches w))
   \<and> (\<not> transitioning w \<longrightarrow> length (snd (run evs (w, []))) \<le> 1)"
proof (intro conjI impI)
  assume "data_loaded (pnl w c)"
  then show "preloadTabContent c w = preload_images c w"
    by (simp add: preloadTabContent_def)
  then show "fetches (snd (preloadTabContent c w)) = fetches w"
    by (simp add: preload_images_def upd_pnl_def)
next
  assume "data_load (pnl w c) \<and> \<not> data_loaded (pnl w c) \<and> truthy_url (data_load_url (pnl w c))"
  then show "preloadTabContent c w
        = (AwaitFetch, w\<lparr>fetches := fetches w @ [(c, js_str (data_load_url (pnl w c)))]\<rparr>)"
    by (simp add: preloadTabContent_def)
next
  show "data_loaded (pnl (snd (preloadTabContent_fetched (FetchOk h n) c w)) c)"
    by (simp add: preloadTabContent_fetched_def preload_images_def upd_pnl_def Let_def)
  show "data_loaded (pnl (snd (preloadTabContent_fetched FetchFail c w)) c) = data_loaded (pnl w c)"
    by (simp add: preloadTabContent_fetched_def upd_pnl_def)
next
  assume l: "data_loaded (pnl w c)"
  from run_loaded [of "(w, ts)" c evs] l
  show "data_loaded (pnl (fst (run evs (w, ts))) c)"
    and "filter (\<lambda>f. fst f = c) (fetches (fst (run evs (w, ts))))
          = filter (\<lambda>f. fst f = c) (fetches w)"
    by simp_all
next
  assume "\<not> transitioning w"
  then have "busy_inv (w, [])" by (simp add: busy_inv_def)
  then have "busy_inv (run evs (w, []))" by (rule busy_inv_run)
  then show "length (snd (run evs (w, []))) \<le> 1"
    by (cases "run evs (w, [])") (auto simp: busy_inv_def split: list.splits)
qed

theorem loaded_panel_not_fetched_again_witness:
  "data_loaded (pnl page_loaded 2)
   \<and> fetches (snd (preloadTabContent 2 page_loaded)) = fetches page_loaded
   \<and> filter (\<lambda>f. fst f = 2)
        (fetches (fst (run [Request 2, Settle 0 ImagesOk, Settle 0 TimerFired, Settle 0 TimerFired,
                            Request 0, Request 2] (page_loaded, []))))
       = filter (\<lambda>f. fst f = 2) (fetches page_loaded)
   \<and> data_load (pnl (page_abc []) 2) \<and> \<not> data_loaded (pnl (page_abc []) 2)
   \<and> truthy_url (data_load_url (pnl (page_abc []) 2))
   \<and> fst (preloadTabContent 2 (page_abc [])) = AwaitFetch
   \<and> \<not> transitioning (page_abc [])
   \<and> length (snd (run [Request 2, Request 0] (page_abc [], []))) \<le> 1"
proof -
  have l: "data_loaded (pnl page_loaded 2)"
    by (simp add: page_loaded_def upd_pnl_def)
  have u: "data_load (pnl (page_abc []) 2) \<and> \<not> data_loaded (pnl (page_abc []) 2)
      \<and> truthy_url (data_load_url (pnl (page_abc []) 2))"
    and i: "\<not> transitioning (page_abc [])"
    by (simp_all add: page_defs truthy_url_def)
  note at_loaded = loaded_panel_not_fetched_again [where w = page_loaded and c = 2 and ts = "[]"
      and evs = "[Request 2, Settle 0 ImagesOk, Settle 0 TimerFired, Settle 0 TimerFired,
                  Request 0, Request 2]"]
  note at_page = loaded_panel_not_fetched_again [where w = "page_abc []" and c = 2
      and evs = "[Request 2, Request 0]"]
  from at_loaded l have f1: "fetches (snd (preloadTabContent 2 page_loaded)) = fetches page_loaded"
    by blast
  from at_loaded l have f2: "filter (\<lambda>f. fst f = 2)
        (fetches (fst (run [Request 2, Settle 0 ImagesOk, Settle 0 TimerFired, Settle 0 TimerFired,
                            Request 0, Request 2] (page_loaded, []))))
       = filter (\<lambda>f. fst f = 2) (fetches page_loaded)"
    by blast
  from at_page u have "preloadTabContent 2 (page_abc [])
        = (AwaitFetch, (page_abc [])\<lparr>fetches := fetches (page_abc []) @
             [(2, js_str (data_load_url (pnl (page_abc []) 2)))]\<rparr>)"
    by blast
  then have f3: "fst (preloadTabContent 2 (page_abc [])) = AwaitFetch" by simp
  from at_page i have f4: "length (snd (run [Request 2, Request 0] (page_abc [], []))) \<le> 1"
    by blast
  show ?thesis
    using l f1 f2 u f3 i f4 by (intro conjI) blast+
qed










text \<open>
  C9. When the trigger and the panel of \<open>tabId\<close> exist, \<open>removeTab\<close> of the active tab
  throws a \<open>TypeError\<close> before anything is removed (the world is the one before the
  call), whatever the number of tabs, because \<open>filter\<close> is called on a \<open>NodeList\<close>;
  \<open>removeTab\<close> of a tab that is not active completes: both elements leave the
  document, the snapshots are taken again and the accessibility attributes rewritten.
\<close>

theorem removeTab_active_throws:
  assumes "query_data_tab w tabId = Some b" and "query_id w tabId = Some c"
  shows "(b_active (btn w b) \<longrightarrow> removeTab tabId w = Inl (TypeError, w))
       \<and> (\<not> b_active (btn w b) \<longrightarrow>
            removeTab tabId w =
              Inr (Resolved,
                   updateTabAccessibility
                     (w\<lparr>dom_buttons := element_remove b (dom_buttons w),
                        dom_panels := element_remove c (dom_panels w),
                        tabButtons := element_remove b (dom_buttons w),
                        tabContents := element_remove c (dom_panels w)\<rparr>)))"
  using assms by (simp add: removeTab_def NodeList_filter_def)

theorem removeTab_active_throws_witness:
  "query_data_tab (page_abc []) ''B'' = Some 1 \<and> query_id (page_abc []) ''B'' = Some 1
   \<and> 2 \<le> length (tabButtons (page_abc []))
   \<and> b_active (btn (page_abc []) 1)
   \<and> removeTab ''B'' (page_abc []) = Inl (TypeError, page_abc [])
   \<and> query_data_tab (page_abc []) ''A'' = Some 0 \<and> query_id (page_abc []) ''A'' = Some 0
   \<and> \<not> b_active (btn (page_abc []) 0)
   \<and> (case removeTab ''A'' (page_abc []) of
         Inl _ \<Rightarrow> False
       | Inr (r, w') \<Rightarrow> r = Resolved \<and> dom_buttons w' = [1, 2] \<and> dom_panels w' = [1, 2]
                         \<and> tabButtons w' = [1, 2])"
proof -
  have b: "query_data_tab (page_abc []) ''B'' = Some 1" "query_id (page_abc []) ''B'' = Some 1"
    by (simp_all add: page_defs query_data_tab_def query_id_def)
  have a: "query_data_tab (page_abc []) ''A'' = Some 0" "query_id (page_abc []) ''A'' = Some 0"
    by (simp_all add: page_defs query_data_tab_def query_id_def)
  have act: "b_active (btn (page_abc []) 1)" "\<not> b_active (btn (page_abc []) 0)"
    by (simp_all add: page_defs)
  show ?thesis
    using removeTab_active_throws [OF b] removeTab_active_throws [OF a] a b act
    by (simp add: element_remove_def updateTabAccessibility_def) (simp add: page_defs)
qed



end
